theory Spec2Isabelle
  imports Complex_Main
begin

section \<open>Python values, strings and exceptions\<close>

text \<open>
  The client layer is Python. Exceptions are values of \<open>py_error\<close>; a function that can
  raise returns \<open>py_error + 'a\<close> with \<open>Inl\<close> for the raised exception.
\<close>

datatype py_error = KeyError | AttributeError | NameError | TypeError | InvalidEnumValue

text \<open>
  A Python \<^verbatim>\<open>str\<close> is held as the byte string of its UTF-8 encoding, so an ASCII
  string is held as it is written. \<open>upper\<close> maps the letters a..z to A..Z and leaves every
  other byte alone: it is \<^verbatim>\<open>bytes.upper\<close>, and it is \<^verbatim>\<open>str.upper\<close> on a string
  of ASCII characters.
\<close>

definition upper_char :: "char \<Rightarrow> char" where
  "upper_char c =
     (let n = (of_char c :: nat) in if 97 \<le> n \<and> n \<le> 122 then char_of (n - 32) else c)"

definition upper :: "string \<Rightarrow> string" where
  "upper s = map upper_char s"

text \<open>
  \<^verbatim>\<open>str.upper\<close> follows the Unicode case mappings, which are a table of the
  interpreter and not of this repository: on a string with a character outside ASCII
  (whose upper-case form can be an ASCII string all the same) its result is taken from
  the parameter \<open>unicode_upper\<close>.
\<close>

definition is_ascii :: "string \<Rightarrow> bool" where
  "is_ascii s = list_all (\<lambda>c. (of_char c :: nat) < 128) s"

definition str_upper :: "(string \<Rightarrow> string) \<Rightarrow> string \<Rightarrow> string" where
  "str_upper unicode_upper s = (if is_ascii s then upper s else unicode_upper s)"

text \<open>
  A Python float is a finite number, an infinity or NaN. The finite ones are the reals
  they denote. Every comparison with NaN is false.
\<close>

datatype py_float = Finite real | PosInf | NegInf | NaN

definition float_lt :: "py_float \<Rightarrow> py_float \<Rightarrow> bool" where
  "float_lt a b =
     (case (a, b) of
        (NaN, _) \<Rightarrow> False
      | (_, NaN) \<Rightarrow> False
      | (Finite x, Finite y) \<Rightarrow> x < y
      | (NegInf, NegInf) \<Rightarrow> False
      | (NegInf, _) \<Rightarrow> True
      | (_, NegInf) \<Rightarrow> False
      | (PosInf, _) \<Rightarrow> False
      | (_, PosInf) \<Rightarrow> True)"

definition float_le :: "py_float \<Rightarrow> py_float \<Rightarrow> bool" where
  "float_le a b =
     (case (a, b) of
        (NaN, _) \<Rightarrow> False
      | (_, NaN) \<Rightarrow> False
      | (Finite x, Finite y) \<Rightarrow> x \<le> y
      | (NegInf, _) \<Rightarrow> True
      | (_, NegInf) \<Rightarrow> False
      | (_, PosInf) \<Rightarrow> True
      | (PosInf, _) \<Rightarrow> False)"

text \<open>Decimal rendering of an integer, as \<^verbatim>\<open>str(code)\<close> and an f-string write it
  (the interpreter's configurable bound on the number of digits is not modelled).\<close>

definition digit_char :: "nat \<Rightarrow> char" where
  "digit_char d = char_of (48 + d)"

function str_nat :: "nat \<Rightarrow> string" where
  "str_nat n = (if n < 10 then [digit_char n] else str_nat (n div 10) @ [digit_char (n mod 10)])"
  by pat_completeness auto
termination
  by (relation "measure id") auto

declare str_nat.simps [simp del]

definition str_int :: "int \<Rightarrow> string" where
  "str_int i = (if i < 0 then CHR ''-'' # str_nat (nat (- i)) else str_nat (nat i))"

section \<open>The enumeration layer (client/types.py)\<close>

datatype order_type =
  BUY | SELL | BUY_LIMIT | SELL_LIMIT | BUY_STOP | SELL_STOP
  | BUY_STOP_LIMIT | SELL_STOP_LIMIT | CLOSE_BY

fun order_type_value :: "order_type \<Rightarrow> int" where
  "order_type_value BUY = 0"
| "order_type_value SELL = 1"
| "order_type_value BUY_LIMIT = 2"
| "order_type_value SELL_LIMIT = 3"
| "order_type_value BUY_STOP = 4"
| "order_type_value SELL_STOP = 5"
| "order_type_value BUY_STOP_LIMIT = 6"
| "order_type_value SELL_STOP_LIMIT = 7"
| "order_type_value CLOSE_BY = 8"

fun order_type_name :: "order_type \<Rightarrow> string" where
  "order_type_name BUY = ''BUY''"
| "order_type_name SELL = ''SELL''"
| "order_type_name BUY_LIMIT = ''BUY_LIMIT''"
| "order_type_name SELL_LIMIT = ''SELL_LIMIT''"
| "order_type_name BUY_STOP = ''BUY_STOP''"
| "order_type_name SELL_STOP = ''SELL_STOP''"
| "order_type_name BUY_STOP_LIMIT = ''BUY_STOP_LIMIT''"
| "order_type_name SELL_STOP_LIMIT = ''SELL_STOP_LIMIT''"
| "order_type_name CLOSE_BY = ''CLOSE_BY''"

text \<open>Iterating over the class (\<^verbatim>\<open>for order_type in cls\<close>) visits the members in
  definition order.\<close>

definition order_type_members :: "order_type list" where
  "order_type_members =
     [BUY, SELL, BUY_LIMIT, SELL_LIMIT, BUY_STOP, SELL_STOP,
      BUY_STOP_LIMIT, SELL_STOP_LIMIT, CLOSE_BY]"

text \<open>\<^verbatim>\<open>OrderType.to_string(code, default=None)\<close>. The default is a string or None;
  \<^verbatim>\<open>default or f"UNKNOWN_{code}"\<close> takes the label when the default is None or
  the empty string.\<close>

definition to_string :: "int \<Rightarrow> string option \<Rightarrow> string" where
  "to_string code dflt =
     (case find (\<lambda>t. order_type_value t = code) order_type_members of
        Some t \<Rightarrow> order_type_name t
      | None \<Rightarrow>
          (case dflt of
             Some d \<Rightarrow> if d \<noteq> [] then d else ''UNKNOWN_'' @ str_int code
           | None \<Rightarrow> ''UNKNOWN_'' @ str_int code))"

text \<open>
  The values a caller may pass where a name is expected. None, numbers and members of
  the enumeration have no attribute \<^verbatim>\<open>upper\<close>. A \<^verbatim>\<open>str\<close>, a \<^verbatim>\<open>bytes\<close> and a
  \<^verbatim>\<open>bytearray\<close> have the method. \<open>PyStrClass\<close> is the class \<^verbatim>\<open>str\<close> itself, whose
  \<^verbatim>\<open>upper\<close> called without an argument raises TypeError. \<open>PyObject e\<close> is an
  object of any other class on which evaluating \<^verbatim>\<open>name.upper()\<close> raises \<open>e\<close>
  (AttributeError when it has no such attribute). An object whose \<^verbatim>\<open>upper()\<close>
  returns a value is, for what follows, that of the constructor whose method returns the
  same kind of value.
\<close>

datatype py_value =
  PyNone | PyInt int | PyFloat py_float | PyStr string | PyEnum order_type
  | PyBytes string | PyByteArray string | PyStrClass | PyObject py_error

text \<open>\<^verbatim>\<open>name.upper()\<close>.\<close>

definition py_upper :: "(string \<Rightarrow> string) \<Rightarrow> py_value \<Rightarrow> py_error + py_value" where
  "py_upper unicode_upper v =
     (case v of
        PyStr s \<Rightarrow> Inr (PyStr (str_upper unicode_upper s))
      | PyBytes b \<Rightarrow> Inr (PyBytes (upper b))
      | PyByteArray b \<Rightarrow> Inr (PyByteArray (upper b))
      | PyStrClass \<Rightarrow> Inl TypeError
      | PyObject e \<Rightarrow> Inl e
      | _ \<Rightarrow> Inl AttributeError)"

text \<open>\<^verbatim>\<open>cls[key]\<close>, a lookup in the dictionary of the members by name: the member of
  that name for a string, TypeError for a key that cannot be hashed (a bytearray),
  KeyError for every other key.\<close>

definition order_type_getitem :: "py_value \<Rightarrow> py_error + order_type" where
  "order_type_getitem key =
     (case key of
        PyStr k \<Rightarrow>
          (case find (\<lambda>t. order_type_name t = k) order_type_members of
             Some t \<Rightarrow> Inr t
           | None \<Rightarrow> Inl KeyError)
      | PyByteArray b \<Rightarrow> Inl TypeError
      | _ \<Rightarrow> Inl KeyError)"

text \<open>\<^verbatim>\<open>OrderType.to_code(name, default=None)\<close>: the body of the \<^verbatim>\<open>try\<close> is
  \<open>to_code_body\<close>; the handler catches KeyError and AttributeError and returns the
  default (\<open>None\<close> is Python's None), any other exception propagates.\<close>

definition to_code_body :: "(string \<Rightarrow> string) \<Rightarrow> py_value \<Rightarrow> py_error + int" where
  "to_code_body unicode_upper name =
     (case py_upper unicode_upper name of
        Inl e \<Rightarrow> Inl e
      | Inr u \<Rightarrow>
          (case order_type_getitem u of
             Inl e \<Rightarrow> Inl e
           | Inr t \<Rightarrow> Inr (order_type_value t)))"

definition to_code ::
  "(string \<Rightarrow> string) \<Rightarrow> py_value \<Rightarrow> int option \<Rightarrow> py_error + int option" where
  "to_code unicode_upper name dflt =
     (case to_code_body unicode_upper name of
        Inr v \<Rightarrow> Inr (Some v)
      | Inl e \<Rightarrow> if e = KeyError \<or> e = AttributeError then Inr dflt else Inl e)"



text \<open>A caller may name an enumeration member by its name, by its numeric code, or
  pass the member itself (\<^verbatim>\<open>Union[str, int, OrderType]\<close>).\<close>

datatype 'e enum_input = Name string | Code int | Typed 'e

text \<open>Modelled from the spec: \<^verbatim>\<open>OrderType.validate\<close> is called by send_order but
  types.py defines no such method. Section 4.1 (c) of the specification: it accepts a
  name, a code, or an already-typed enum value and returns the canonical typed value,
  failing with an InvalidEnumValue error when the input matches none of the known names
  or codes; lookups are case-insensitive for string input.\<close>

definition order_type_validate :: "order_type enum_input \<Rightarrow> py_error + order_type" where
  "order_type_validate x =
     (case x of
        Typed t \<Rightarrow> Inr t
      | Name s \<Rightarrow>
          (case find (\<lambda>t. order_type_name t = upper s) order_type_members of
             Some t \<Rightarrow> Inr t
           | None \<Rightarrow> Inl InvalidEnumValue)
      | Code c \<Rightarrow>
          (case find (\<lambda>t. order_type_value t = c) order_type_members of
             Some t \<Rightarrow> Inr t
           | None \<Rightarrow> Inl InvalidEnumValue))"

text \<open>Modelled from the spec: the class \<^verbatim>\<open>TradeRequestActions\<close> that send_order imports
  is not defined in types.py. Its members are the six action kinds of the specification
  (and of the docstring of send_order); the codes are those of the class
  \<^verbatim>\<open>TradeAction\<close> of types.py. The member CLOSE_BY is written \<open>CLOSE_BY_ACTION\<close>
  here, the order type of that name being a different constant.\<close>

datatype trade_request_actions = DEAL | PENDING | SLTP | MODIFY | REMOVE | CLOSE_BY_ACTION

fun action_value :: "trade_request_actions \<Rightarrow> int" where
  "action_value DEAL = 1"
| "action_value PENDING = 5"
| "action_value SLTP = 6"
| "action_value MODIFY = 7"
| "action_value REMOVE = 8"
| "action_value CLOSE_BY_ACTION = 10"

fun action_name :: "trade_request_actions \<Rightarrow> string" where
  "action_name DEAL = ''DEAL''"
| "action_name PENDING = ''PENDING''"
| "action_name SLTP = ''SLTP''"
| "action_name MODIFY = ''MODIFY''"
| "action_name REMOVE = ''REMOVE''"
| "action_name CLOSE_BY_ACTION = ''CLOSE_BY''"

definition action_members :: "trade_request_actions list" where
  "action_members = [DEAL, PENDING, SLTP, MODIFY, REMOVE, CLOSE_BY_ACTION]"

text \<open>Modelled from the spec: \<^verbatim>\<open>TradeRequestActions.validate\<close>, the same entry point
  for the action kinds.\<close>

definition action_validate ::
  "trade_request_actions enum_input \<Rightarrow> py_error + trade_request_actions" where
  "action_validate x =
     (case x of
        Typed a \<Rightarrow> Inr a
      | Name s \<Rightarrow>
          (case find (\<lambda>a. action_name a = upper s) action_members of
             Some a \<Rightarrow> Inr a
           | None \<Rightarrow> Inl InvalidEnumValue)
      | Code c \<Rightarrow>
          (case find (\<lambda>a. action_value a = c) action_members of
             Some a \<Rightarrow> Inr a
           | None \<Rightarrow> Inl InvalidEnumValue))"

text \<open>The codes of \<^verbatim>\<open>OrderFilling.FOK\<close>, \<^verbatim>\<open>OrderTime.GTC\<close> and
  \<^verbatim>\<open>OrderTime.SPECIFIED\<close> (types.py).\<close>

definition OrderFilling_FOK :: int where "OrderFilling_FOK = 0"
definition OrderTime_GTC :: int where "OrderTime_GTC = 0"
definition OrderTime_SPECIFIED :: int where "OrderTime_SPECIFIED = 2"

section \<open>The terminal gateway\<close>

text \<open>
  The MetaTrader5 module and MT5Market are external. The gateway record holds what the
  client reads from them: the symbol lookup, the symbol activation, the quote lookup, the
  positions query, and the last-error channel as a function of the requests submitted so
  far. Every operation of the client returns, next to its result, the list of calls it
  made (the requests passed to \<^verbatim>\<open>mt5.order_send\<close>, the queries passed to
  \<^verbatim>\<open>mt5.positions_get\<close>), in order.
\<close>

record tick =
  bid :: real
  ask :: real

text \<open>The request dictionary of a pending order. \<open>req_expiration = None\<close> is the
  integer 0 the source writes when no expiration is given; a datetime is an integer
  time stamp.\<close>

record request =
  req_action :: trade_request_actions
  req_symbol :: string
  req_volume :: py_float
  req_type :: order_type
  req_price :: real
  req_sl :: real
  req_tp :: real
  req_deviation :: int
  req_comment :: string
  req_type_time :: int
  req_expiration :: "int option"
  req_type_filling :: int

datatype positions_query = By_ticket int | By_symbol string | By_group string | All_positions

text \<open>Modelled from the spec: \<^verbatim>\<open>convert_positions_to_dataframe\<close> (client/utils.py)
  is not among the source files. Section 3 of the specification: a position is projected
  to a row holding its ticket, symbol and type code; the rows of a query are the list
  the gateway returns, with the column \<^verbatim>\<open>type_code\<close> present.\<close>

record position_row =
  row_ticket :: int
  row_symbol :: string
  row_type_code :: int

record gateway =
  get_symbols :: "string \<Rightarrow> string list"
  symbol_select :: "string \<Rightarrow> bool"
  symbol_info_tick :: "string \<Rightarrow> tick option"
  last_error :: "request list \<Rightarrow> int \<times> string"
  positions_get :: "positions_query \<Rightarrow> position_row list option"

section \<open>send_order (client/functions/send_order.py)\<close>

text \<open>The result dictionary: \<^verbatim>\<open>{"success": ..., "message": ...}\<close> on every return
  inside the function, and the dictionary with \<^verbatim>\<open>return_code\<close> and
  \<^verbatim>\<open>return_message\<close> (and no message) at its end.\<close>

record outcome =
  success :: bool
  message :: "string option"
  return_code :: "int option"
  return_message :: "string option"

definition result :: "bool \<Rightarrow> string \<Rightarrow> outcome" where
  "result ok msg =
     \<lparr>success = ok, message = Some msg, return_code = None, return_message = None\<rparr>"

definition unknown_error :: outcome where
  "unknown_error =
     \<lparr>success = False, message = None, return_code = Some (- 1),
      return_message = Some ''Unknown error''\<rparr>"

text \<open>Lines 122 to 136: the stop-loss and take-profit checks; \<open>Some msg\<close> is the return
  with that message, \<open>None\<close> falls through.\<close>

definition check_sl_tp :: "order_type \<Rightarrow> real \<Rightarrow> real \<Rightarrow> real \<Rightarrow> string option" where
  "check_sl_tp ot price stop_loss take_profit =
     (if ot \<in> set [BUY, BUY_LIMIT, BUY_STOP] then
        (if stop_loss \<ge> price then Some ''Stop loss must be below the price''
         else if take_profit \<le> price then Some ''Take profit must be above the price''
         else if stop_loss > take_profit then Some ''Stop loss must be below the take profit''
         else None)
      else if ot \<in> set [SELL, SELL_LIMIT, SELL_STOP] then
        (if stop_loss \<le> price then Some ''Stop loss must be above the price''
         else if take_profit \<ge> price then Some ''Take profit must be below the price''
         else if stop_loss < take_profit then Some ''Stop loss must be above the take profit''
         else None)
      else None)"

text \<open>Lines 181 to 194: the price against the quote, for a pending order.\<close>

definition check_pending_price :: "order_type \<Rightarrow> real \<Rightarrow> tick \<Rightarrow> string option" where
  "check_pending_price ot price t =
     (case ot of
        BUY_LIMIT \<Rightarrow>
          if price > ask t then Some ''Invalid price, must be above current ask'' else None
      | SELL_LIMIT \<Rightarrow>
          if price < bid t then Some ''Invalid price, must be below current bid'' else None
      | BUY_STOP \<Rightarrow>
          if price < ask t then Some ''Invalid price, must be above current ask'' else None
      | SELL_STOP \<Rightarrow>
          if price > bid t then Some ''Invalid price, must be below current bid'' else None
      | _ \<Rightarrow> None)"

text \<open>\<^verbatim>\<open>mt5.order_send(request)\<close> followed by the reading of
  \<^verbatim>\<open>mt5.last_error()\<close>.\<close>

definition submit :: "gateway \<Rightarrow> request \<Rightarrow> (py_error + outcome) \<times> request list" where
  "submit gw request =
     (let sent = [request];
          (error_code, error_description) = last_error gw sent
      in if error_code < 0
         then (Inr (result False (''Error '' @ str_int error_code @ '': '' @ error_description)),
               sent)
         else (Inr (result True ''Order sent successfully''), sent))"

text \<open>The case DEAL. The request dictionary is built from the names \<^verbatim>\<open>sl\<close> and
  \<^verbatim>\<open>tp\<close>, which are bound nowhere in the function or the module (the parameters
  are stop_loss and take_profit): evaluating the dictionary raises NameError, before
  \<^verbatim>\<open>mt5.order_send\<close> is reached.\<close>

definition send_deal :: "order_type \<Rightarrow> (py_error + outcome) \<times> request list" where
  "send_deal ot =
     (if ot \<notin> set [BUY, SELL]
      then (Inr (result False ''Invalid order type, must be BUY or SELL''), [])
      else (Inl NameError, []))"

text \<open>The case PENDING: the request dictionary of lines 196 to 209, and the case itself.\<close>

definition pending_request ::
  "trade_request_actions \<Rightarrow> string \<Rightarrow> py_float \<Rightarrow> order_type \<Rightarrow> real \<Rightarrow> real \<Rightarrow> real
     \<Rightarrow> int \<Rightarrow> string \<Rightarrow> int option \<Rightarrow> request" where
  "pending_request act symbol volume ot price stop_loss take_profit deviation comment expiration =
     \<lparr>req_action = act, req_symbol = symbol, req_volume = volume, req_type = ot,
      req_price = price, req_sl = stop_loss, req_tp = take_profit,
      req_deviation = deviation, req_comment = comment,
      req_type_time = (if expiration \<noteq> None then OrderTime_SPECIFIED else OrderTime_GTC),
      req_expiration = expiration,
      req_type_filling = OrderFilling_FOK\<rparr>"

definition send_pending ::
  "gateway \<Rightarrow> trade_request_actions \<Rightarrow> string \<Rightarrow> py_float \<Rightarrow> order_type \<Rightarrow> real \<Rightarrow> real
     \<Rightarrow> real \<Rightarrow> int \<Rightarrow> string \<Rightarrow> int option \<Rightarrow> (py_error + outcome) \<times> request list" where
  "send_pending gw act symbol volume ot price stop_loss take_profit deviation comment expiration =
     (if ot \<notin> set [BUY_LIMIT, SELL_LIMIT, BUY_STOP, SELL_STOP]
      then (Inr (result False
              ''Invalid order type, must be BUY_LIMIT, SELL_LIMIT, BUY_STOP, or SELL_STOP''), [])
      else
        (case (case symbol_info_tick gw symbol of
                 None \<Rightarrow> None
               | Some t \<Rightarrow> check_pending_price ot price t) of
           Some msg \<Rightarrow> (Inr (result False msg), [])
         | None \<Rightarrow>
             submit gw
               (pending_request act symbol volume ot price stop_loss take_profit deviation
                  comment expiration)))"

text \<open>
  The function. Of its parameters, connection is the gateway; magic, position,
  position_by, order, type_filling, type_time and stoplimit are read nowhere in the body
  and are left out. The volume is a float, compared as it comes (line 107). The price,
  the stop-loss and the take-profit are the finite numbers they denote:
  \<^verbatim>\<open>float(price)\<close>, \<^verbatim>\<open>float(stop_loss)\<close> and \<^verbatim>\<open>float(take_profit)\<close> are the
  identity on them, and the \<^verbatim>\<open>isinstance(..., float)\<close> tests that follow cannot
  fail. The two calls of
  validate are not inside any \<^verbatim>\<open>try\<close>: an exception they raise leaves the
  function. The cases SLTP, MODIFY and CLOSE_BY only print, and REMOVE matches no case:
  all four reach the return at the end of the function.
\<close>

definition send_order ::
  "gateway \<Rightarrow> trade_request_actions enum_input \<Rightarrow> string \<Rightarrow> py_float
     \<Rightarrow> order_type enum_input \<Rightarrow> real \<Rightarrow> real \<Rightarrow> real \<Rightarrow> int \<Rightarrow> string \<Rightarrow> int option
     \<Rightarrow> (py_error + outcome) \<times> request list" where
  "send_order gw action symbol volume order_type price stop_loss take_profit deviation comment
       expiration =
     (case action_validate action of
        Inl e \<Rightarrow> (Inl e, [])
      | Inr act \<Rightarrow>
     (case order_type_validate order_type of
        Inl e \<Rightarrow> (Inl e, [])
      | Inr ot \<Rightarrow>
          if length (get_symbols gw symbol) = 0
          then (Inr (result False ''Invalid symbol''), [])
          else if \<not> symbol_select gw symbol
          then (Inr (result False (''Failed to select '' @ symbol)), [])
          else if float_le volume (Finite 0) \<or> float_lt (Finite 100) volume
          then (Inr (result False ''Invalid volume''), [])
          else
            (case check_sl_tp ot price stop_loss take_profit of
               Some msg \<Rightarrow> (Inr (result False msg), [])
             | None \<Rightarrow>
                 (let comment = (if comment \<noteq> [] then comment else ''MCP'') in
                  (case act of
                     DEAL \<Rightarrow> send_deal ot
                   | PENDING \<Rightarrow>
                       send_pending gw act symbol volume ot price stop_loss take_profit
                         deviation comment expiration
                   | _ \<Rightarrow> (Inr unknown_error, []))))))"

text \<open>A terminal that knows the symbol XAUUSD, quotes it at 3990 / 3991 and reports
  \<^verbatim>\<open>(1, 'Success')\<close> on its error channel; and one without a quote.\<close>

definition demo_gateway :: gateway where
  "demo_gateway =
     \<lparr>get_symbols = (\<lambda>s. if s = ''XAUUSD'' then [''XAUUSD''] else []),
      symbol_select = (\<lambda>s. True),
      symbol_info_tick = (\<lambda>s. Some \<lparr>bid = 3990, ask = 3991\<rparr>),
      last_error = (\<lambda>sent. (1, ''Success'')),
      positions_get = (\<lambda>q. Some [])\<rparr>"

definition no_quote_gateway :: gateway where
  "no_quote_gateway = demo_gateway\<lparr>symbol_info_tick := (\<lambda>s. None)\<rparr>"

section \<open>close_all_profittable_positions (client/order)\<close>

text \<open>
  \<^verbatim>\<open>get_all_positions\<close> and \<^verbatim>\<open>close_position\<close> are external. The first returns
  a data frame: either the frame without any column that \<^verbatim>\<open>pd.DataFrame()\<close> builds
  (what the position queries of orders.py return when there is nothing to convert), or
  rows with the columns \<^verbatim>\<open>id\<close> and \<^verbatim>\<open>profit\<close>. Selecting the column
  \<^verbatim>\<open>profit\<close> of a frame without columns raises KeyError. A call of close_position
  either raises (\<open>Inl\<close>) or returns, and \<open>Inr ok\<close> says whether the terminal closed the
  position; the source never looks at what it returns.
\<close>

record position =
  pos_id :: int
  pos_profit :: py_float

datatype 'row frame = No_columns | Rows "'row list"

record summary =
  summary_error :: bool
  summary_message :: string
  summary_data :: "unit option"

text \<open>The loop over \<^verbatim>\<open>positions["id"]\<close>: the counter, and the ids close_position was
  called with so far.\<close>

fun close_loop ::
  "(int \<Rightarrow> py_error + bool) \<Rightarrow> int list \<Rightarrow> nat \<Rightarrow> int list \<Rightarrow> (py_error + nat) \<times> int list" where
  "close_loop close_position [] count calls = (Inr count, calls)"
| "close_loop close_position (i # ids) count calls =
     (case close_position i of
        Inl e \<Rightarrow> (Inl e, calls @ [i])
      | Inr ok \<Rightarrow> close_loop close_position ids (count + 1) (calls @ [i]))"

definition close_all_profittable_positions ::
  "position frame \<Rightarrow> (int \<Rightarrow> py_error + bool) \<Rightarrow> (py_error + summary) \<times> int list" where
  "close_all_profittable_positions all_positions close_position =
     (case all_positions of
        No_columns \<Rightarrow> (Inl KeyError, [])
      | Rows rows \<Rightarrow>
          (let positions = filter (\<lambda>p. float_le (Finite 0) (pos_profit p)) rows in
           (case close_loop close_position (map pos_id positions) 0 [] of
              (Inl e, calls) \<Rightarrow> (Inl e, calls)
            | (Inr count, calls) \<Rightarrow>
                (Inr \<lparr>summary_error = False,
                      summary_message =
                        ''Close '' @ str_nat count @ '' profittable positions success'',
                      summary_data = None\<rparr>,
                 calls))))"

text \<open>What the specification counts: the closes that succeeded.\<close>

definition successful_closes :: "(int \<Rightarrow> py_error + bool) \<Rightarrow> int list \<Rightarrow> nat" where
  "successful_closes close_position ids = length (filter (\<lambda>i. close_position i = Inr True) ids)"

text \<open>A close operation that returns a failure for every position, and one that
  closes every position.\<close>

definition failing_close :: "int \<Rightarrow> py_error + bool" where
  "failing_close i = Inr False"

definition working_close :: "int \<Rightarrow> py_error + bool" where
  "working_close i = Inr True"

definition one_profitable :: "position frame" where
  "one_profitable =
     Rows [\<lparr>pos_id = 7, pos_profit = Finite 5\<rparr>, \<lparr>pos_id = 8, pos_profit = Finite (- 2)\<rparr>]"

section \<open>MT5Orders._getPositions (client/orders.py)\<close>

text \<open>The ticket is an integer or a string. \<^verbatim>\<open>int(ticket)\<close> on a string is Python's
  builtin; the function takes it as the parameter \<open>py_int\<close>, \<open>None\<close> being
  ValueError.\<close>

datatype ticket_arg = TicketInt int | TicketStr string

text \<open>Lines 60 to 71, reached when a ticket is given: \<open>True\<close> when neither
  \<^verbatim>\<open>return pd.DataFrame()\<close> is taken. \<^verbatim>\<open>if symbol_name:\<close> holds for a string
  that is not empty. The parameter group is written \<open>group_name\<close>.\<close>

definition symbol_group_valid :: "gateway \<Rightarrow> string option \<Rightarrow> string option \<Rightarrow> bool" where
  "symbol_group_valid gw symbol_name group_name =
     (if (case symbol_name of
            Some s \<Rightarrow> s \<noteq> [] \<and> length (get_symbols gw s) \<noteq> 1
          | None \<Rightarrow> False) then False
      else if (case group_name of
                 Some g \<Rightarrow> g \<noteq> [] \<and> length (get_symbols gw g) = 0
               | None \<Rightarrow> False) then False
      else True)"

text \<open>Lines 78 to 93: which query goes to \<^verbatim>\<open>mt5.positions_get\<close>; \<open>None\<close> is the
  return of an empty frame for a ticket string that is no integer.\<close>

definition select_query ::
  "(string \<Rightarrow> int option) \<Rightarrow> ticket_arg option \<Rightarrow> string option \<Rightarrow> string option
     \<Rightarrow> positions_query option" where
  "select_query py_int ticket symbol_name group_name =
     (case ticket of
        Some (TicketStr s) \<Rightarrow>
          (case py_int s of None \<Rightarrow> None | Some n \<Rightarrow> Some (By_ticket n))
      | Some (TicketInt n) \<Rightarrow> Some (By_ticket n)
      | None \<Rightarrow>
          (case symbol_name of
             Some s \<Rightarrow> Some (By_symbol s)
           | None \<Rightarrow>
               (case group_name of
                  Some g \<Rightarrow> Some (By_group g)
                | None \<Rightarrow> Some All_positions)))"

text \<open>Lines 100 to 109: the filter by order type, on a frame that is not empty. The
  argument is None or, as the signature declares it, a string, an integer or a member
  of OrderType. A string goes through \<open>to_code\<close> (comparing the column with the None
  that an unknown name gives keeps no row), a member gives its value, an integer is the
  code itself.\<close>

definition filter_order_type ::
  "(string \<Rightarrow> string) \<Rightarrow> order_type enum_input option \<Rightarrow> position_row list
     \<Rightarrow> py_error + position_row list" where
  "filter_order_type unicode_upper order_type rows =
     (if order_type = None \<or> rows = [] then Inr rows
      else
        (case order_type of
           Some (Name s) \<Rightarrow>
             (case to_code unicode_upper (PyStr s) None of
                Inl e \<Rightarrow> Inl e
              | Inr type_code \<Rightarrow> Inr (filter (\<lambda>r. Some (row_type_code r) = type_code) rows))
         | Some (Typed t) \<Rightarrow> Inr (filter (\<lambda>r. row_type_code r = order_type_value t) rows)
         | Some (Code c) \<Rightarrow> Inr (filter (\<lambda>r. row_type_code r = c) rows)
         | None \<Rightarrow> Inr rows))"

definition getPositions ::
  "gateway \<Rightarrow> (string \<Rightarrow> string) \<Rightarrow> (string \<Rightarrow> int option) \<Rightarrow> ticket_arg option
     \<Rightarrow> string option \<Rightarrow> string option \<Rightarrow> order_type enum_input option
     \<Rightarrow> (py_error + position_row list) \<times> positions_query list" where
  "getPositions gw unicode_upper py_int ticket symbol_name group_name order_type =
     (if ticket \<noteq> None \<and> \<not> symbol_group_valid gw symbol_name group_name then (Inr [], [])
      else
        (case select_query py_int ticket symbol_name group_name of
           None \<Rightarrow> (Inr [], [])
         | Some q \<Rightarrow>
             (case positions_get gw q of
                None \<Rightarrow> (Inr [], [q])
              | Some positions \<Rightarrow>
                  (filter_order_type unicode_upper order_type positions, [q]))))"

text \<open>A terminal where the pattern USD matches two symbols and the ticket 1 is an open
  position; and a conversion of ticket strings that knows the string 1.\<close>

definition usd_gateway :: gateway where
  "usd_gateway =
     \<lparr>get_symbols =
        (\<lambda>s. if s = ''USD'' then [''EURUSD'', ''GBPUSD'']
              else if s = ''EURUSD'' then [''EURUSD''] else []),
      symbol_select = (\<lambda>s. True),
      symbol_info_tick = (\<lambda>s. None),
      last_error = (\<lambda>sent. (1, ''Success'')),
      positions_get =
        (\<lambda>q. if q = By_ticket 1
              then Some [\<lparr>row_ticket = 1, row_symbol = ''EURUSD'', row_type_code = 0\<rparr>]
              else Some [])\<rparr>"

definition demo_int :: "string \<Rightarrow> int option" where
  "demo_int s = (if s = ''1'' then Some 1 else None)"

section \<open>Properties of the enumeration layer\<close>

lemma find_by_value: "find (\<lambda>u. order_type_value u = order_type_value t) order_type_members = Some t"
  by (cases t) (simp_all add: order_type_members_def)

lemma find_by_name: "find (\<lambda>u. order_type_name u = order_type_name t) order_type_members = Some t"
  by (cases t) (simp_all add: order_type_members_def)

lemma upper_member_name: "upper (order_type_name t) = order_type_name t"
  by (cases t) (simp_all add: upper_def upper_char_def)

lemma is_ascii_member_name: "is_ascii (order_type_name t)"
  by (cases t) (simp_all add: is_ascii_def)

lemma str_upper_member_name: "str_upper unicode_upper (order_type_name t) = order_type_name t"
  by (simp add: str_upper_def is_ascii_member_name upper_member_name)

lemma to_string_member: "to_string (order_type_value t) d = order_type_name t"
  by (simp add: to_string_def find_by_value)

lemma getitem_member: "order_type_getitem (PyStr (order_type_name t)) = Inr t"
  by (simp add: order_type_getitem_def find_by_name)


lemma to_code_name:
  "str_upper unicode_upper s = order_type_name t \<Longrightarrow>
     to_code unicode_upper (PyStr s) d = Inr (Some (order_type_value t))"
  by (simp add: to_code_def to_code_body_def py_upper_def getitem_member)


text \<open>
  Claim C8. The OrderType mapping round-trips in both directions and is one-to-one on
  the defined members: for every defined code \<open>c\<close>, the code of the name of \<open>c\<close> is \<open>c\<close>;
  for every string \<open>n\<close> whose upper-case form is a defined name, the name of the code
  of \<open>n\<close> is the upper-case form of \<open>n\<close>; the codes of the members are pairwise distinct
  and so are their names. The defaults passed to the two lookups play no role, and
  neither does the upper-casing of strings outside ASCII.
\<close>

theorem order_type_round_trip:
  assumes "c \<in> set (map order_type_value order_type_members)"
    and "str_upper unicode_upper n \<in> set (map order_type_name order_type_members)"
  shows "to_code unicode_upper (PyStr (to_string c d)) d' = Inr (Some c)
    \<and> (\<exists>k. to_code unicode_upper (PyStr n) d' = Inr (Some k)
          \<and> to_string k d = str_upper unicode_upper n)
    \<and> distinct (map order_type_value order_type_members)
    \<and> distinct (map order_type_name order_type_members)"
proof -
  from assms(1) obtain t where c: "c = order_type_value t" by auto
  have one: "to_code unicode_upper (PyStr (to_string c d)) d' = Inr (Some c)"
    unfolding c to_string_member by (rule to_code_name) (rule str_upper_member_name)
  from assms(2) obtain u where u: "str_upper unicode_upper n = order_type_name u" by auto
  have "to_code unicode_upper (PyStr n) d' = Inr (Some (order_type_value u))"
    using u by (rule to_code_name)
  moreover have "to_string (order_type_value u) d = str_upper unicode_upper n"
    by (simp add: to_string_member u)
  ultimately have two: "\<exists>k. to_code unicode_upper (PyStr n) d' = Inr (Some k)
      \<and> to_string k d = str_upper unicode_upper n"
    by blast
  have three: "distinct (map order_type_value order_type_members)"
    by (simp add: order_type_members_def)
  have four: "distinct (map order_type_name order_type_members)"
    by (simp add: order_type_members_def)
  from one two three four show ?thesis by blast
qed

theorem order_type_round_trip_witness:
  "to_code upper (PyStr (to_string 3 None)) None = Inr (Some 3)
    \<and> (\<exists>k. to_code upper (PyStr ''sell_Limit'') None = Inr (Some k)
          \<and> to_string k None = ''SELL_LIMIT'')"
proof -
  have a: "(3::int) \<in> set (map order_type_value order_type_members)"
    by (simp add: order_type_members_def)
  have u: "str_upper upper ''sell_Limit'' = ''SELL_LIMIT''" by code_simp
  have b: "str_upper upper ''sell_Limit'' \<in> set (map order_type_name order_type_members)"
    unfolding u by (simp add: order_type_members_def)
  from order_type_round_trip [OF a b, of None None] u show ?thesis by simp
qed

text \<open>
  Claim C9. For every integer code that is the value of no defined member, the
  code-to-name lookup called without a default returns the string made of the prefix
  UNKNOWN_ and the decimal rendering of the code. The lookup raises nowhere: it is a
  total function to strings.
\<close>

theorem to_string_unknown_code:
  assumes "c \<notin> set (map order_type_value order_type_members)"
  shows "to_string c None = ''UNKNOWN_'' @ str_int c"
proof -
  have "find (\<lambda>t. order_type_value t = c) order_type_members = None"
    using assms by (auto simp: find_None_iff)
  then show ?thesis by (simp add: to_string_def)
qed

theorem to_string_unknown_code_witness:
  "to_string 42 None = ''UNKNOWN_42'' \<and> to_string (- 7) None = ''UNKNOWN_-7''"
proof -
  have a: "(42::int) \<notin> set (map order_type_value order_type_members)"
    by (simp add: order_type_members_def)
  have b: "(- 7::int) \<notin> set (map order_type_value order_type_members)"
    by (simp add: order_type_members_def)
  have s: "str_int 42 = ''42''" "str_int (- 7) = ''-7''" by code_simp+
  from to_string_unknown_code [OF a] to_string_unknown_code [OF b] s show ?thesis by simp
qed




section \<open>Properties of send_order\<close>

subsection \<open>Auxiliary facts\<close>

lemma check_sl_tp_message:
  "check_sl_tp ot price stop_loss take_profit = Some m \<Longrightarrow> m \<noteq> ''Invalid volume''"
  by (auto simp: check_sl_tp_def split: if_splits)

lemma submit_sent: "snd (submit gw r) = [r]"
  by (simp add: submit_def Let_def split: prod.splits)

lemma submit_not_rejected: "fst (submit gw r) \<noteq> Inr (result False ''Invalid volume'')"
  by (simp add: submit_def Let_def result_def split: prod.splits)

lemma send_deal_not_volume: "fst (send_deal ot) \<noteq> Inr (result False ''Invalid volume'')"
  by (simp add: send_deal_def result_def)

lemma check_pending_price_message:
  "check_pending_price ot price t = Some m \<Longrightarrow> m \<noteq> ''Invalid volume''"
  by (auto simp: check_pending_price_def split: order_type.splits if_splits)

lemma send_pending_not_volume:
  "fst (send_pending gw act symbol volume ot price stop_loss take_profit deviation comment expiration)
     \<noteq> Inr (result False ''Invalid volume'')"
proof (cases "ot \<in> set [BUY_LIMIT, SELL_LIMIT, BUY_STOP, SELL_STOP]")
  case False
  then show ?thesis by (simp add: send_pending_def result_def)
next
  case True
  show ?thesis
  proof (cases "case symbol_info_tick gw symbol of None \<Rightarrow> None
                 | Some t \<Rightarrow> check_pending_price ot price t")
    case None
    with True show ?thesis
      unfolding send_pending_def by (simp add: submit_not_rejected)
  next
    case (Some m)
    then have "m \<noteq> ''Invalid volume''"
      by (auto split: option.splits dest: check_pending_price_message)
    with True Some show ?thesis
      unfolding send_pending_def by (simp add: result_def)
  qed
qed

lemma demo_symbols: "get_symbols demo_gateway ''XAUUSD'' \<noteq> []"
  by (simp add: demo_gateway_def)

lemma demo_select: "symbol_select demo_gateway ''XAUUSD''"
  by (simp add: demo_gateway_def)

lemma validate_typed_action: "action_validate (Typed a) = Inr a"
  by (simp add: action_validate_def)

lemma validate_typed_order_type: "order_type_validate (Typed t) = Inr t"
  by (simp add: order_type_validate_def)

lemma no_quote_symbols: "get_symbols no_quote_gateway ''XAUUSD'' \<noteq> []"
  by (simp add: no_quote_gateway_def demo_gateway_def)

lemma no_quote_select: "symbol_select no_quote_gateway ''XAUUSD''"
  by (simp add: no_quote_gateway_def demo_gateway_def)

lemma find_action_by_value:
  "find (\<lambda>u. action_value u = action_value a) action_members = Some a"
  by (cases a) (simp_all add: action_members_def)

lemma find_action_by_name:
  "find (\<lambda>u. action_name u = action_name a) action_members = Some a"
  by (cases a) (simp_all add: action_members_def)

lemma order_type_validate_error: "order_type_validate x = Inl e \<Longrightarrow> e = InvalidEnumValue"
  by (auto simp: order_type_validate_def split: enum_input.splits option.splits)

lemma action_validate_error: "action_validate x = Inl e \<Longrightarrow> e = InvalidEnumValue"
  by (auto simp: action_validate_def split: enum_input.splits option.splits)

lemma send_order_pending:
  assumes "action_validate action = Inr PENDING"
    and "order_type_validate order_type = Inr ot"
    and "get_symbols gw symbol \<noteq> []"
    and "symbol_select gw symbol"
    and "\<not> float_le volume (Finite 0)" and "\<not> float_lt (Finite 100) volume"
    and "check_sl_tp ot price stop_loss take_profit = None"
  shows "send_order gw action symbol volume order_type price stop_loss take_profit deviation
           comment expiration =
         send_pending gw PENDING symbol volume ot price stop_loss take_profit deviation
           (if comment \<noteq> [] then comment else ''MCP'') expiration"
  using assms by (simp add: send_order_def)

lemma send_order_invalid_enum:
  assumes "isl (action_validate action) \<or> isl (order_type_validate order_type)"
  shows "send_order gw action symbol volume order_type price stop_loss take_profit deviation
           comment expiration = (Inl InvalidEnumValue, [])"
proof (cases "action_validate action")
  case (Inl e)
  then show ?thesis
    using action_validate_error [OF Inl] by (simp add: send_order_def)
next
  case (Inr act)
  with assms obtain e where e: "order_type_validate order_type = Inl e"
    by (cases "order_type_validate order_type") auto
  with Inr show ?thesis
    using order_type_validate_error [OF e] by (simp add: send_order_def)
qed

lemma send_order_canonical:
  assumes "action_validate action = Inr a" and "order_type_validate order_type = Inr t"
  shows "send_order gw action symbol volume order_type price stop_loss take_profit deviation
           comment expiration =
         send_order gw (Typed a) symbol volume (Typed t) price stop_loss take_profit deviation
           comment expiration"
  using assms by (simp add: send_order_def validate_typed_action validate_typed_order_type)

subsection \<open>The volume check\<close>

text \<open>
  Once the action and the order type are canonical and the symbol is known and selected,
  send_order returns the non-success outcome with the message \<^verbatim>\<open>Invalid volume\<close>,
  with nothing submitted, exactly when one of the two comparisons of line 107 holds. On
  a finite volume \<open>v\<close> that is exactly when \<open>v\<close> is outside the interval (0, 100]; both
  infinities are rejected; on NaN neither comparison holds.
\<close>

lemma finite_volume_check:
  "(float_le (Finite v) (Finite 0) \<or> float_lt (Finite 100) (Finite v)) = (\<not> (0 < v \<and> v \<le> 100))"
  by (auto simp: float_le_def float_lt_def)

lemma infinite_volume_check:
  "float_lt (Finite 100) PosInf" "float_le NegInf (Finite 0)"
  by (simp_all add: float_le_def float_lt_def)

lemma nan_volume_check: "\<not> (float_le NaN (Finite 0) \<or> float_lt (Finite 100) NaN)"
  by (simp add: float_le_def float_lt_def)

lemma send_order_volume_check:
  assumes "action_validate action = Inr act"
    and "order_type_validate order_type = Inr ot"
    and "get_symbols gw symbol \<noteq> []"
    and "symbol_select gw symbol"
  shows "(float_le volume (Finite 0) \<or> float_lt (Finite 100) volume \<longrightarrow>
            send_order gw action symbol volume order_type price stop_loss take_profit deviation
              comment expiration = (Inr (result False ''Invalid volume''), []))
       \<and> (\<not> (float_le volume (Finite 0) \<or> float_lt (Finite 100) volume) \<longrightarrow>
            fst (send_order gw action symbol volume order_type price stop_loss take_profit
              deviation comment expiration) \<noteq> Inr (result False ''Invalid volume''))"
proof (intro conjI impI)
  assume "float_le volume (Finite 0) \<or> float_lt (Finite 100) volume"
  with assms show "send_order gw action symbol volume order_type price stop_loss take_profit
      deviation comment expiration = (Inr (result False ''Invalid volume''), [])"
    by (simp add: send_order_def)
next
  assume nv: "\<not> (float_le volume (Finite 0) \<or> float_lt (Finite 100) volume)"
  show "fst (send_order gw action symbol volume order_type price stop_loss take_profit
      deviation comment expiration) \<noteq> Inr (result False ''Invalid volume'')"
  proof (cases "check_sl_tp ot price stop_loss take_profit")
    case (Some m)
    then have "m \<noteq> ''Invalid volume''" by (rule check_sl_tp_message)
    with assms nv Some show ?thesis
      by (simp add: send_order_def result_def)
  next
    case None
    with assms nv show ?thesis
      by (cases act)
        (simp_all add: send_order_def send_deal_not_volume send_pending_not_volume,
         simp_all add: unknown_error_def result_def)
  qed
qed

lemma send_order_volume_instances:
  "send_order demo_gateway (Typed PENDING) ''XAUUSD'' (Finite 0) (Typed SELL_LIMIT)
      4000 4100 3900 20 [] None = (Inr (result False ''Invalid volume''), [])
   \<and> send_order demo_gateway (Typed PENDING) ''XAUUSD'' (Finite 100.0001) (Typed SELL_LIMIT)
      4000 4100 3900 20 [] None = (Inr (result False ''Invalid volume''), [])
   \<and> send_order demo_gateway (Typed PENDING) ''XAUUSD'' (Finite (- 1)) (Typed SELL_LIMIT)
      4000 4100 3900 20 [] None = (Inr (result False ''Invalid volume''), [])
   \<and> fst (send_order demo_gateway (Typed PENDING) ''XAUUSD'' (Finite 100) (Typed SELL_LIMIT)
      4000 4100 3900 20 [] None) \<noteq> Inr (result False ''Invalid volume'')
   \<and> fst (send_order demo_gateway (Typed PENDING) ''XAUUSD'' (Finite 0.01) (Typed SELL_LIMIT)
      4000 4100 3900 20 [] None) \<noteq> Inr (result False ''Invalid volume'')"
proof -
  note th = send_order_volume_check [OF validate_typed_action validate_typed_order_type
      demo_symbols demo_select, where act = PENDING and ot = SELL_LIMIT and price = 4000
      and stop_loss = 4100 and take_profit = 3900 and deviation = 20 and comment = "[]"
      and expiration = None]
  show ?thesis
    using th [where volume = "Finite 0"] th [where volume = "Finite 100.0001"]
      th [where volume = "Finite (- 1)"] th [where volume = "Finite 100"]
      th [where volume = "Finite 0.01"]
    by (simp add: finite_volume_check)
qed

text \<open>
  Claim C7 says that the volume check accepts exactly the volumes \<open>v\<close> with
  \<open>0 < v \<le> 100\<close>. In the code a volume that is NaN passes the check too, both comparisons
  being false on it: the pending order below, with the volume NaN, is submitted to the
  gateway and reported as sent.
\<close>

theorem nan_volume_submitted:
  "send_order demo_gateway (Typed PENDING) ''XAUUSD'' NaN (Typed SELL_LIMIT)
      4000 4100 3900 20 [] None
     = (Inr (result True ''Order sent successfully''),
        [\<lparr>req_action = PENDING, req_symbol = ''XAUUSD'', req_volume = NaN,
          req_type = SELL_LIMIT, req_price = 4000, req_sl = 4100, req_tp = 3900,
          req_deviation = 20, req_comment = ''MCP'', req_type_time = 0,
          req_expiration = None, req_type_filling = 0\<rparr>])"
  by (simp add: send_order_def validate_typed_action validate_typed_order_type
      demo_gateway_def float_le_def float_lt_def check_sl_tp_def send_pending_def
      check_pending_price_def submit_def pending_request_def OrderTime_GTC_def
      OrderFilling_FOK_def)

subsection \<open>The price of a pending order against the quote\<close>

text \<open>
  Claim C4. For an intent whose action is PENDING, whose order type is one of BUY_LIMIT,
  SELL_LIMIT, BUY_STOP, SELL_STOP and which passes the earlier steps (symbol, volume,
  stop-loss and take-profit): when the gateway returns a quote, a BUY_LIMIT price above
  the ask, a SELL_LIMIT price below the bid, a BUY_STOP price below the ask and a
  SELL_STOP price above the bid are each rejected with a non-success message naming the
  current ask or the current bid, nothing being submitted; a price that violates none of
  the four is submitted; and when the gateway returns no quote the check is skipped and
  the request is submitted.
\<close>

theorem pending_price_check:
  assumes "action_validate action = Inr PENDING"
    and "order_type_validate order_type = Inr ot"
    and "ot \<in> {BUY_LIMIT, SELL_LIMIT, BUY_STOP, SELL_STOP}"
    and "get_symbols gw symbol \<noteq> []"
    and "symbol_select gw symbol"
    and "\<not> float_le volume (Finite 0)" and "\<not> float_lt (Finite 100) volume"
    and "check_sl_tp ot price stop_loss take_profit = None"
  shows "(\<forall>t. symbol_info_tick gw symbol = Some t \<longrightarrow>
            (ot = BUY_LIMIT \<and> price > ask t \<longrightarrow>
               send_order gw action symbol volume order_type price stop_loss take_profit
                 deviation comment expiration
               = (Inr (result False ''Invalid price, must be above current ask''), []))
          \<and> (ot = SELL_LIMIT \<and> price < bid t \<longrightarrow>
               send_order gw action symbol volume order_type price stop_loss take_profit
                 deviation comment expiration
               = (Inr (result False ''Invalid price, must be below current bid''), []))
          \<and> (ot = BUY_STOP \<and> price < ask t \<longrightarrow>
               send_order gw action symbol volume order_type price stop_loss take_profit
                 deviation comment expiration
               = (Inr (result False ''Invalid price, must be above current ask''), []))
          \<and> (ot = SELL_STOP \<and> price > bid t \<longrightarrow>
               send_order gw action symbol volume order_type price stop_loss take_profit
                 deviation comment expiration
               = (Inr (result False ''Invalid price, must be below current bid''), []))
          \<and> (\<not> (ot = BUY_LIMIT \<and> price > ask t) \<and> \<not> (ot = SELL_LIMIT \<and> price < bid t)
               \<and> \<not> (ot = BUY_STOP \<and> price < ask t) \<and> \<not> (ot = SELL_STOP \<and> price > bid t) \<longrightarrow>
               snd (send_order gw action symbol volume order_type price stop_loss take_profit
                 deviation comment expiration)
               = [pending_request PENDING symbol volume ot price stop_loss take_profit
                    deviation (if comment \<noteq> [] then comment else ''MCP'') expiration]))
       \<and> (symbol_info_tick gw symbol = None \<longrightarrow>
            send_order gw action symbol volume order_type price stop_loss take_profit
              deviation comment expiration
            = submit gw (pending_request PENDING symbol volume ot price stop_loss take_profit
                deviation (if comment \<noteq> [] then comment else ''MCP'') expiration)
          \<and> snd (send_order gw action symbol volume order_type price stop_loss take_profit
                 deviation comment expiration)
            = [pending_request PENDING symbol volume ot price stop_loss take_profit
                    deviation (if comment \<noteq> [] then comment else ''MCP'') expiration])"
proof -
  note eq = send_order_pending [OF assms(1,2,4-8)]
  have allowed: "\<not> ot \<notin> set [BUY_LIMIT, SELL_LIMIT, BUY_STOP, SELL_STOP]"
    using assms(3) by simp
  have rejected: "send_order gw action symbol volume order_type price stop_loss take_profit
       deviation comment expiration = (Inr (result False m), [])"
    if "symbol_info_tick gw symbol = Some t" "check_pending_price ot price t = Some m" for t m
    unfolding eq send_pending_def using allowed that by simp
  have submitted: "send_order gw action symbol volume order_type price stop_loss take_profit
       deviation comment expiration =
       submit gw (pending_request PENDING symbol volume ot price stop_loss take_profit
                deviation (if comment \<noteq> [] then comment else ''MCP'') expiration)"
    if "(case symbol_info_tick gw symbol of None \<Rightarrow> None
         | Some t \<Rightarrow> check_pending_price ot price t) = None"
    unfolding eq send_pending_def using allowed that
    by simp
  show ?thesis
  proof (intro conjI allI impI)
    fix t assume t: "symbol_info_tick gw symbol = Some t"
    { assume "ot = BUY_LIMIT \<and> price > ask t"
      then have "check_pending_price ot price t = Some ''Invalid price, must be above current ask''"
        by (simp add: check_pending_price_def)
      from rejected [OF t this]
      show "send_order gw action symbol volume order_type price stop_loss take_profit
         deviation comment expiration
         = (Inr (result False ''Invalid price, must be above current ask''), [])" . }
    { assume "ot = SELL_LIMIT \<and> price < bid t"
      then have "check_pending_price ot price t = Some ''Invalid price, must be below current bid''"
        by (simp add: check_pending_price_def)
      from rejected [OF t this]
      show "send_order gw action symbol volume order_type price stop_loss take_profit
         deviation comment expiration
         = (Inr (result False ''Invalid price, must be below current bid''), [])" . }
    { assume "ot = BUY_STOP \<and> price < ask t"
      then have "check_pending_price ot price t = Some ''Invalid price, must be above current ask''"
        by (simp add: check_pending_price_def)
      from rejected [OF t this]
      show "send_order gw action symbol volume order_type price stop_loss take_profit
         deviation comment expiration
         = (Inr (result False ''Invalid price, must be above current ask''), [])" . }
    { assume "ot = SELL_STOP \<and> price > bid t"
      then have "check_pending_price ot price t = Some ''Invalid price, must be below current bid''"
        by (simp add: check_pending_price_def)
      from rejected [OF t this]
      show "send_order gw action symbol volume order_type price stop_loss take_profit
         deviation comment expiration
         = (Inr (result False ''Invalid price, must be below current bid''), [])" . }
    { assume "\<not> (ot = BUY_LIMIT \<and> price > ask t) \<and> \<not> (ot = SELL_LIMIT \<and> price < bid t)
               \<and> \<not> (ot = BUY_STOP \<and> price < ask t) \<and> \<not> (ot = SELL_STOP \<and> price > bid t)"
      then have "check_pending_price ot price t = None"
        by (cases ot) (auto simp: check_pending_price_def)
      with t have "(case symbol_info_tick gw symbol of None \<Rightarrow> None
         | Some t \<Rightarrow> check_pending_price ot price t) = None" by simp
      from submitted [OF this]
      show "snd (send_order gw action symbol volume order_type price stop_loss take_profit
                 deviation comment expiration)
               = [pending_request PENDING symbol volume ot price stop_loss take_profit
                    deviation (if comment \<noteq> [] then comment else ''MCP'') expiration]"
        by (simp add: submit_sent) }
  next
    assume n: "symbol_info_tick gw symbol = None"
    then have c: "(case symbol_info_tick gw symbol of None \<Rightarrow> None
         | Some t \<Rightarrow> check_pending_price ot price t) = None" by simp
    from submitted [OF c]
    show "send_order gw action symbol volume order_type price stop_loss take_profit
              deviation comment expiration
            = submit gw (pending_request PENDING symbol volume ot price stop_loss take_profit
                deviation (if comment \<noteq> [] then comment else ''MCP'') expiration)" .
    from submitted [OF c]
    show "snd (send_order gw action symbol volume order_type price stop_loss take_profit
                 deviation comment expiration)
            = [pending_request PENDING symbol volume ot price stop_loss take_profit
                    deviation (if comment \<noteq> [] then comment else ''MCP'') expiration]"
      by (simp add: submit_sent)
  qed
qed

theorem pending_price_check_witness:
  "send_order demo_gateway (Name ''pending'') ''XAUUSD'' (Finite 0.1) (Name ''sell_limit'')
      3000 3100 2900 20 [] None
     = (Inr (result False ''Invalid price, must be below current bid''), [])
   \<and> snd (send_order no_quote_gateway (Name ''pending'') ''XAUUSD'' (Finite 0.1) (Name ''sell_limit'')
      3000 3100 2900 20 [] None)
     = [\<lparr>req_action = PENDING, req_symbol = ''XAUUSD'', req_volume = Finite 0.1,
         req_type = SELL_LIMIT, req_price = 3000, req_sl = 3100, req_tp = 2900,
         req_deviation = 20, req_comment = ''MCP'', req_type_time = 0,
         req_expiration = None, req_type_filling = 0\<rparr>]"
proof -
  have a: "action_validate (Name ''pending'') = Inr PENDING" by code_simp
  have o: "order_type_validate (Name ''sell_limit'') = Inr SELL_LIMIT" by code_simp
  have m: "SELL_LIMIT \<in> {BUY_LIMIT, SELL_LIMIT, BUY_STOP, SELL_STOP}" by simp
  have v: "\<not> float_le (Finite 0.1) (Finite 0)" "\<not> float_lt (Finite 100) (Finite 0.1)"
    by (simp_all add: float_le_def float_lt_def)
  have c: "check_sl_tp SELL_LIMIT 3000 3100 2900 = None" by (simp add: check_sl_tp_def)
  have q: "symbol_info_tick demo_gateway ''XAUUSD'' = Some \<lparr>bid = 3990, ask = 3991\<rparr>"
    by (simp add: demo_gateway_def)
  have n: "symbol_info_tick no_quote_gateway ''XAUUSD'' = None"
    by (simp add: no_quote_gateway_def demo_gateway_def)
  have one: "send_order demo_gateway (Name ''pending'') ''XAUUSD'' (Finite 0.1) (Name ''sell_limit'')
      3000 3100 2900 20 [] None
     = (Inr (result False ''Invalid price, must be below current bid''), [])"
    using pending_price_check [OF a o m demo_symbols demo_select v c, of 20 "[]" None] q
    by simp
  have two: "snd (send_order no_quote_gateway (Name ''pending'') ''XAUUSD'' (Finite 0.1)
      (Name ''sell_limit'') 3000 3100 2900 20 [] None)
     = [pending_request PENDING ''XAUUSD'' (Finite 0.1) SELL_LIMIT 3000 3100 2900 20 ''MCP'' None]"
    using pending_price_check [OF a o m no_quote_symbols no_quote_select v c, of 20 "[]" None] n
    by (simp add: submit_sent)
  from one two show ?thesis
    by (simp add: pending_request_def OrderTime_GTC_def OrderFilling_FOK_def)
qed

subsection \<open>Canonicalization of the action and the order type\<close>

text \<open>
  Claim C3, as the code has it. The validation entry point returns the member for a
  member, for its code and for its name in any letter case, and fails with
  InvalidEnumValue for a name or a code that matches no member, for order types and for
  actions alike. In send_order the two validations come first: when either fails,
  send_order does not return an outcome at all, the InvalidEnumValue exception leaves
  the function, and no gateway submission has been made; when both succeed, send_order
  behaves as on the two canonical members.
\<close>

theorem validate_then_propagate:
  "order_type_validate (Typed t) = Inr t
   \<and> order_type_validate (Code (order_type_value t)) = Inr t
   \<and> (upper s = order_type_name t \<longrightarrow> order_type_validate (Name s) = Inr t)
   \<and> (upper s \<notin> set (map order_type_name order_type_members) \<longrightarrow>
        order_type_validate (Name s) = Inl InvalidEnumValue)
   \<and> (c \<notin> set (map order_type_value order_type_members) \<longrightarrow>
        order_type_validate (Code c) = Inl InvalidEnumValue)
   \<and> action_validate (Typed a) = Inr a
   \<and> action_validate (Code (action_value a)) = Inr a
   \<and> (upper s = action_name a \<longrightarrow> action_validate (Name s) = Inr a)
   \<and> (upper s \<notin> set (map action_name action_members) \<longrightarrow>
        action_validate (Name s) = Inl InvalidEnumValue)
   \<and> (c \<notin> set (map action_value action_members) \<longrightarrow>
        action_validate (Code c) = Inl InvalidEnumValue)
   \<and> (isl (action_validate action) \<or> isl (order_type_validate order_type) \<longrightarrow>
        send_order gw action symbol volume order_type price stop_loss take_profit deviation
          comment expiration = (Inl InvalidEnumValue, []))
   \<and> (action_validate action = Inr a \<and> order_type_validate order_type = Inr t \<longrightarrow>
        send_order gw action symbol volume order_type price stop_loss take_profit deviation
          comment expiration =
        send_order gw (Typed a) symbol volume (Typed t) price stop_loss take_profit deviation
          comment expiration)"
proof (intro conjI impI)
  show "order_type_validate (Typed t) = Inr t" by (rule validate_typed_order_type)
  show "order_type_validate (Code (order_type_value t)) = Inr t"
    by (simp add: order_type_validate_def find_by_value)
  show "order_type_validate (Name s) = Inr t" if "upper s = order_type_name t"
    using that by (simp add: order_type_validate_def find_by_name)
  show "order_type_validate (Name s) = Inl InvalidEnumValue"
    if "upper s \<notin> set (map order_type_name order_type_members)"
  proof -
    have "find (\<lambda>t. order_type_name t = upper s) order_type_members = None"
      using that by (force simp: find_None_iff image_iff)
    then show ?thesis by (simp add: order_type_validate_def)
  qed
  show "order_type_validate (Code c) = Inl InvalidEnumValue"
    if "c \<notin> set (map order_type_value order_type_members)"
  proof -
    have "find (\<lambda>t. order_type_value t = c) order_type_members = None"
      using that by (auto simp: find_None_iff)
    then show ?thesis by (simp add: order_type_validate_def)
  qed
  show "action_validate (Typed a) = Inr a" by (rule validate_typed_action)
  show "action_validate (Code (action_value a)) = Inr a"
    by (simp add: action_validate_def find_action_by_value)
  show "action_validate (Name s) = Inr a" if "upper s = action_name a"
    using that by (simp add: action_validate_def find_action_by_name)
  show "action_validate (Name s) = Inl InvalidEnumValue"
    if "upper s \<notin> set (map action_name action_members)"
  proof -
    have "find (\<lambda>a. action_name a = upper s) action_members = None"
      using that by (force simp: find_None_iff image_iff)
    then show ?thesis by (simp add: action_validate_def)
  qed
  show "action_validate (Code c) = Inl InvalidEnumValue"
    if "c \<notin> set (map action_value action_members)"
  proof -
    have "find (\<lambda>a. action_value a = c) action_members = None"
      using that by (auto simp: find_None_iff)
    then show ?thesis by (simp add: action_validate_def)
  qed
  show "send_order gw action symbol volume order_type price stop_loss take_profit deviation
          comment expiration = (Inl InvalidEnumValue, [])"
    if "isl (action_validate action) \<or> isl (order_type_validate order_type)"
    using that by (rule send_order_invalid_enum)
  show "send_order gw action symbol volume order_type price stop_loss take_profit deviation
          comment expiration =
        send_order gw (Typed a) symbol volume (Typed t) price stop_loss take_profit deviation
          comment expiration"
    if "action_validate action = Inr a \<and> order_type_validate order_type = Inr t"
    using that by (simp add: send_order_canonical)
qed

theorem validate_then_propagate_witness:
  "order_type_validate (Name ''buy_Stop'') = Inr BUY_STOP
   \<and> order_type_validate (Code 3) = Inr SELL_LIMIT
   \<and> order_type_validate (Name ''hold'') = Inl InvalidEnumValue
   \<and> action_validate (Code 99) = Inl InvalidEnumValue
   \<and> send_order demo_gateway (Code 99) ''XAUUSD'' (Finite 0.1) (Name ''buy_Stop'') 100 90 110 20 [] None
       = (Inl InvalidEnumValue, [])"
proof -
  note th = validate_then_propagate [where t = BUY_STOP and s = "''buy_Stop''" and c = 99
      and a = DEAL and action = "Code 99" and order_type = "Name ''buy_Stop''"
      and gw = demo_gateway and symbol = "''XAUUSD''" and volume = "Finite 0.1" and price = 100
      and stop_loss = 90 and take_profit = 110 and deviation = 20 and comment = "[]"
      and expiration = None]
  have u: "upper ''buy_Stop'' = order_type_name BUY_STOP" by code_simp
  have one: "order_type_validate (Name ''buy_Stop'') = Inr BUY_STOP"
    using th u by blast
  have c99: "(99::int) \<notin> set (map action_value action_members)"
    by (simp add: action_members_def)
  have four: "action_validate (Code 99) = Inl InvalidEnumValue"
    using th c99 by blast
  then have "isl (action_validate (Code 99))" by simp
  then have five: "send_order demo_gateway (Code 99) ''XAUUSD'' (Finite 0.1) (Name ''buy_Stop'') 100 90 110 20 [] None
       = (Inl InvalidEnumValue, [])"
    using th by blast
  have two: "order_type_validate (Code 3) = Inr SELL_LIMIT"
    using validate_then_propagate [where t = SELL_LIMIT] by simp
  have h: "upper ''hold'' = ''HOLD''" by code_simp
  have hn: "upper ''hold'' \<notin> set (map order_type_name order_type_members)"
    unfolding h by (simp add: order_type_members_def)
  have three: "order_type_validate (Name ''hold'') = Inl InvalidEnumValue"
    using validate_then_propagate [where s = "''hold''"] hn by blast
  from one two three four five show ?thesis by blast
qed

text \<open>Claim C3 as stated says that send_order wraps the failure as a non-success
  outcome. On the action DEAL and the unknown order type HOLD the exception propagates
  instead.\<close>

theorem invalid_order_type_propagates:
  "send_order demo_gateway (Name ''DEAL'') ''XAUUSD'' (Finite 0.1) (Name ''HOLD'') 100 90 110 20 [] None
     = (Inl InvalidEnumValue, [])"
  by code_simp

subsection \<open>The ordering of stop-loss, price and take-profit on the buy side\<close>

text \<open>
  For a buy-side order type that reaches the check, a stop-loss at or above the price and
  a take-profit at or below the price are rejected with their messages and nothing is
  submitted. The third test of the source can never fire: once the first two have passed,
  the stop-loss is below the take-profit. With both stops at zero the first or the second
  test always fires.
\<close>

lemma buy_side_ordering_rejected:
  assumes "action_validate action = Inr act"
    and "order_type_validate order_type = Inr ot"
    and "ot \<in> {BUY, BUY_LIMIT, BUY_STOP}"
    and "get_symbols gw symbol \<noteq> []"
    and "symbol_select gw symbol"
    and "\<not> float_le volume (Finite 0)" and "\<not> float_lt (Finite 100) volume"
  shows "(price \<le> stop_loss \<longrightarrow>
            send_order gw action symbol volume order_type price stop_loss take_profit deviation
              comment expiration
            = (Inr (result False ''Stop loss must be below the price''), []))
       \<and> (stop_loss < price \<and> take_profit \<le> price \<longrightarrow>
            send_order gw action symbol volume order_type price stop_loss take_profit deviation
              comment expiration
            = (Inr (result False ''Take profit must be above the price''), []))
       \<and> (check_sl_tp ot price stop_loss take_profit
            \<noteq> Some ''Stop loss must be below the take profit'')"
  using assms by (auto simp: send_order_def check_sl_tp_def)

lemma buy_side_zero_stops_rejected:
  assumes "action_validate action = Inr act"
    and "order_type_validate order_type = Inr ot"
    and "ot \<in> {BUY, BUY_LIMIT, BUY_STOP}"
    and "get_symbols gw symbol \<noteq> []"
    and "symbol_select gw symbol"
    and "\<not> float_le volume (Finite 0)" and "\<not> float_lt (Finite 100) volume"
  shows "send_order gw action symbol volume order_type price 0 0 deviation comment expiration
         = (Inr (result False
              (if price \<le> 0 then ''Stop loss must be below the price''
               else ''Take profit must be above the price'')), [])"
  using assms by (auto simp: send_order_def check_sl_tp_def)

text \<open>
  Claim C1 says that a buy-side intent with stop-loss 0 and take-profit 0 passes the
  ordering check. In the code the check has no such guard: a market BUY with the default
  price, stop-loss and take-profit (all 0) is rejected for its stop-loss, a BUY_LIMIT at
  3900 with no stops is rejected for its take-profit, and for no price at all does a
  buy-side order with both stops at zero pass the check.
\<close>

theorem zero_stops_rejected:
  "send_order demo_gateway (Typed DEAL) ''XAUUSD'' (Finite 0.1) (Typed BUY) 0 0 0 20 [] None
     = (Inr (result False ''Stop loss must be below the price''), [])
   \<and> send_order demo_gateway (Typed PENDING) ''XAUUSD'' (Finite 0.1) (Typed BUY_LIMIT) 3900 0 0 20 [] None
     = (Inr (result False ''Take profit must be above the price''), [])
   \<and> (\<forall>price. check_sl_tp BUY price 0 0 \<noteq> None)
   \<and> (\<forall>price. check_sl_tp BUY_LIMIT price 0 0 \<noteq> None)
   \<and> (\<forall>price. check_sl_tp BUY_STOP price 0 0 \<noteq> None)"
proof -
  have a: "send_order demo_gateway (Typed DEAL) ''XAUUSD'' (Finite 0.1) (Typed BUY) 0 0 0 20 [] None
     = (Inr (result False ''Stop loss must be below the price''), [])"
    by (simp add: send_order_def validate_typed_action validate_typed_order_type
        demo_gateway_def check_sl_tp_def float_le_def float_lt_def)
  have b: "send_order demo_gateway (Typed PENDING) ''XAUUSD'' (Finite 0.1) (Typed BUY_LIMIT) 3900 0 0 20 [] None
     = (Inr (result False ''Take profit must be above the price''), [])"
    by (simp add: send_order_def validate_typed_action validate_typed_order_type
        demo_gateway_def check_sl_tp_def float_le_def float_lt_def)
  have c: "check_sl_tp BUY price 0 0 \<noteq> None" for price
    by (simp add: check_sl_tp_def)
  have d: "check_sl_tp BUY_LIMIT price 0 0 \<noteq> None" for price
    by (simp add: check_sl_tp_def)
  have e: "check_sl_tp BUY_STOP price 0 0 \<noteq> None" for price
    by (simp add: check_sl_tp_def)
  from a b c d e show ?thesis by blast
qed

subsection \<open>Market execution\<close>

text \<open>Every intent with the action DEAL and the type BUY or SELL that passes the
  validation steps ends in the NameError, whatever the gateway.\<close>

lemma market_deal_never_submits:
  assumes "action_validate action = Inr DEAL"
    and "order_type_validate order_type = Inr ot"
    and "ot \<in> {BUY, SELL}"
    and "get_symbols gw symbol \<noteq> []"
    and "symbol_select gw symbol"
    and "\<not> float_le volume (Finite 0)" and "\<not> float_lt (Finite 100) volume"
    and "check_sl_tp ot price stop_loss take_profit = None"
  shows "send_order gw action symbol volume order_type price stop_loss take_profit deviation
           comment expiration = (Inl NameError, [])"
  using assms by (auto simp: send_order_def send_deal_def)

text \<open>
  Claim C2 says that a MARKET_DEAL intent of type BUY or SELL that passes validation is
  submitted and that an outcome is returned. In the code such an intent raises NameError
  while the request is built, and nothing is submitted.
\<close>

theorem market_deal_raises:
  "send_order demo_gateway (Typed DEAL) ''XAUUSD'' (Finite 0.1) (Typed BUY) 100 90 110 20 [] None
     = (Inl NameError, [])
   \<and> send_order demo_gateway (Typed DEAL) ''XAUUSD'' (Finite 0.1) (Typed SELL) 100 110 90 20 [] None
     = (Inl NameError, [])"
  by (simp add: send_order_def validate_typed_action validate_typed_order_type
      demo_gateway_def check_sl_tp_def send_deal_def float_le_def float_lt_def)

section \<open>Properties of close_all_profittable_positions\<close>

lemma close_loop_all_return:
  assumes "\<forall>i \<in> set ids. \<exists>ok. close_position i = Inr ok"
  shows "close_loop close_position ids count calls = (Inr (count + length ids), calls @ ids)"
  using assms
proof (induction ids arbitrary: count calls)
  case Nil
  then show ?case by simp
next
  case (Cons i ids)
  from Cons.prems obtain ok where ok: "close_position i = Inr ok" by auto
  from Cons.prems have rest: "\<forall>j \<in> set ids. \<exists>ok. close_position j = Inr ok" by simp
  show ?case
    using ok Cons.IH [OF rest, of "count + 1" "calls @ [i]"] by simp
qed

lemma str_nat_0: "str_nat 0 = ''0''"
  by code_simp

text \<open>
  On a frame with the columns, when no call of close_position raises on a retained
  position, the operation calls close_position exactly once for each position with
  non-negative profit, in order, and for no other, and its message states the number of
  those calls, whatever the calls returned. On the frame without columns it raises
  KeyError.
\<close>

lemma close_all_counts_calls:
  assumes "\<forall>p \<in> set rows. float_le (Finite 0) (pos_profit p) \<longrightarrow>
             (\<exists>ok. close_position (pos_id p) = Inr ok)"
  shows "close_all_profittable_positions (Rows rows) close_position =
           (Inr \<lparr>summary_error = False,
                 summary_message = ''Close ''
                   @ str_nat (length (filter (\<lambda>p. float_le (Finite 0) (pos_profit p)) rows))
                   @ '' profittable positions success'',
                 summary_data = None\<rparr>,
            map pos_id (filter (\<lambda>p. float_le (Finite 0) (pos_profit p)) rows))
       \<and> (filter (\<lambda>p. float_le (Finite 0) (pos_profit p)) rows = [] \<longrightarrow>
            close_all_profittable_positions (Rows rows) close_position =
              (Inr \<lparr>summary_error = False,
                    summary_message = ''Close 0 profittable positions success'',
                    summary_data = None\<rparr>, []))"
proof -
  let ?kept = "filter (\<lambda>p. float_le (Finite 0) (pos_profit p)) rows"
  have "\<forall>i \<in> set (map pos_id ?kept). \<exists>ok. close_position i = Inr ok"
    using assms by auto
  from close_loop_all_return [OF this, of 0 "[]"]
  have loop: "close_loop close_position (map pos_id ?kept) 0 [] =
      (Inr (length ?kept), map pos_id ?kept)" by simp
  have main: "close_all_profittable_positions (Rows rows) close_position =
           (Inr \<lparr>summary_error = False,
                 summary_message = ''Close '' @ str_nat (length ?kept)
                   @ '' profittable positions success'',
                 summary_data = None\<rparr>,
            map pos_id ?kept)"
    by (simp add: close_all_profittable_positions_def loop)
  show ?thesis
  proof (intro conjI impI)
    show "close_all_profittable_positions (Rows rows) close_position =
           (Inr \<lparr>summary_error = False,
                 summary_message = ''Close '' @ str_nat (length ?kept)
                   @ '' profittable positions success'',
                 summary_data = None\<rparr>,
            map pos_id ?kept)" by (rule main)
    assume "?kept = []"
    with main show "close_all_profittable_positions (Rows rows) close_position =
              (Inr \<lparr>summary_error = False,
                    summary_message = ''Close 0 profittable positions success'',
                    summary_data = None\<rparr>, [])"
      by (simp add: str_nat_0)
  qed
qed

lemma close_all_no_columns:
  "close_all_profittable_positions No_columns close_position = (Inl KeyError, [])"
  by (simp add: close_all_profittable_positions_def)

text \<open>
  Claim C5 says that the message counts only the successful closes, and that with no
  eligible position the operation returns success. In the code one eligible position
  whose close reports failure gives the message
  \<^verbatim>\<open>Close 1 profittable positions success\<close> although no close succeeded; and on the
  frame without columns, which holds no position at all, selecting the column
  \<^verbatim>\<open>profit\<close> raises KeyError and nothing is returned.
\<close>

theorem failed_close_is_counted:
  "close_all_profittable_positions one_profitable failing_close =
     (Inr \<lparr>summary_error = False,
           summary_message = ''Close 1 profittable positions success'',
           summary_data = None\<rparr>, [7])
   \<and> successful_closes failing_close [7] = 0
   \<and> close_all_profittable_positions No_columns working_close = (Inl KeyError, [])"
  by code_simp

section \<open>Properties of getPositions\<close>

text \<open>
  Claim C6, as the code has it. When a ticket is given: a symbol name that is not empty
  and does not resolve to exactly one instrument, or a group that is not empty and
  resolves to no instrument, gives the empty result without any query to the gateway;
  otherwise the only query made is the one by ticket, and the result is what that query
  returns (filtered by order type when one is given), the symbol and the group playing
  no further role. A ticket string that is no integer gives the empty result without
  any query. A group that resolves to several instruments passes the pre-check.
\<close>

theorem ticket_precheck:
  assumes "ticket = Some tk"
  shows "(\<forall>s. symbol_name = Some s \<and> s \<noteq> [] \<and> length (get_symbols gw s) \<noteq> 1 \<longrightarrow>
            getPositions gw unicode_upper py_int ticket symbol_name group_name order_type
              = (Inr [], []))
       \<and> (\<forall>g. group_name = Some g \<and> g \<noteq> [] \<and> get_symbols gw g = [] \<longrightarrow>
            getPositions gw unicode_upper py_int ticket symbol_name group_name order_type
              = (Inr [], []))
       \<and> ((\<forall>s. symbol_name = Some s \<and> s \<noteq> [] \<longrightarrow> length (get_symbols gw s) = 1)
            \<and> (\<forall>g. group_name = Some g \<and> g \<noteq> [] \<longrightarrow> get_symbols gw g \<noteq> []) \<longrightarrow>
            snd (getPositions gw unicode_upper py_int ticket symbol_name group_name order_type) =
              (case tk of
                 TicketInt n \<Rightarrow> [By_ticket n]
               | TicketStr str \<Rightarrow> (case py_int str of Some n \<Rightarrow> [By_ticket n] | None \<Rightarrow> []))
            \<and> getPositions gw unicode_upper py_int ticket symbol_name group_name order_type =
              (case (case tk of TicketInt n \<Rightarrow> Some n | TicketStr str \<Rightarrow> py_int str) of
                 None \<Rightarrow> (Inr [], [])
               | Some n \<Rightarrow>
                   (case positions_get gw (By_ticket n) of
                      None \<Rightarrow> (Inr [], [By_ticket n])
                    | Some rows \<Rightarrow>
                        (filter_order_type unicode_upper order_type rows, [By_ticket n]))))
       \<and> (\<forall>str. tk = TicketStr str \<and> py_int str = None \<longrightarrow>
            getPositions gw unicode_upper py_int ticket symbol_name group_name order_type
              = (Inr [], []))"
proof (intro conjI allI impI)
  fix s assume "symbol_name = Some s \<and> s \<noteq> [] \<and> length (get_symbols gw s) \<noteq> 1"
  then have "\<not> symbol_group_valid gw symbol_name group_name"
    by (simp add: symbol_group_valid_def)
  with assms show "getPositions gw unicode_upper py_int ticket symbol_name group_name order_type
      = (Inr [], [])"
    by (simp add: getPositions_def)
next
  fix g assume "group_name = Some g \<and> g \<noteq> [] \<and> get_symbols gw g = []"
  then have "\<not> symbol_group_valid gw symbol_name group_name"
    by (simp add: symbol_group_valid_def)
  with assms show "getPositions gw unicode_upper py_int ticket symbol_name group_name order_type
      = (Inr [], [])"
    by (simp add: getPositions_def)
next
  assume ok: "(\<forall>s. symbol_name = Some s \<and> s \<noteq> [] \<longrightarrow> length (get_symbols gw s) = 1)
            \<and> (\<forall>g. group_name = Some g \<and> g \<noteq> [] \<longrightarrow> get_symbols gw g \<noteq> [])"
  then have valid: "symbol_group_valid gw symbol_name group_name"
    by (auto simp: symbol_group_valid_def split: option.splits)
  show "snd (getPositions gw unicode_upper py_int ticket symbol_name group_name order_type) =
              (case tk of
                 TicketInt n \<Rightarrow> [By_ticket n]
               | TicketStr str \<Rightarrow> (case py_int str of Some n \<Rightarrow> [By_ticket n] | None \<Rightarrow> []))"
    using assms valid
    by (auto simp: getPositions_def select_query_def split: ticket_arg.splits option.splits)
  show "getPositions gw unicode_upper py_int ticket symbol_name group_name order_type =
              (case (case tk of TicketInt n \<Rightarrow> Some n | TicketStr str \<Rightarrow> py_int str) of
                 None \<Rightarrow> (Inr [], [])
               | Some n \<Rightarrow>
                   (case positions_get gw (By_ticket n) of
                      None \<Rightarrow> (Inr [], [By_ticket n])
                    | Some rows \<Rightarrow>
                        (filter_order_type unicode_upper order_type rows, [By_ticket n])))"
    using assms valid
    by (auto simp: getPositions_def select_query_def split: ticket_arg.splits option.splits)
next
  fix str assume "tk = TicketStr str \<and> py_int str = None"
  with assms show "getPositions gw unicode_upper py_int ticket symbol_name group_name order_type
      = (Inr [], [])"
    by (simp add: getPositions_def select_query_def)
qed

theorem ticket_precheck_witness:
  "getPositions usd_gateway upper demo_int (Some (TicketStr ''1'')) (Some ''USD'') None None
     = (Inr [], [])
   \<and> getPositions usd_gateway upper demo_int (Some (TicketStr ''1'')) None (Some ''XAU'') None
     = (Inr [], [])
   \<and> getPositions usd_gateway upper demo_int (Some (TicketStr ''1'')) (Some ''EURUSD'')
        (Some ''USD'') None
     = (Inr [\<lparr>row_ticket = 1, row_symbol = ''EURUSD'', row_type_code = 0\<rparr>], [By_ticket 1])
   \<and> getPositions usd_gateway upper demo_int (Some (TicketStr ''abc'')) (Some ''EURUSD'')
        (Some ''USD'') None
     = (Inr [], [])"
proof -
  have t: "Some (TicketStr ''1'') = Some (TicketStr ''1'')" by simp
  have t': "Some (TicketStr ''abc'') = Some (TicketStr ''abc'')" by simp
  have a: "getPositions usd_gateway upper demo_int (Some (TicketStr ''1'')) (Some ''USD'') None
      None = (Inr [], [])"
    using ticket_precheck [OF t, where symbol_name = "Some ''USD''" and gw = usd_gateway
        and py_int = demo_int and group_name = None and order_type = None
        and unicode_upper = upper]
    by (simp add: usd_gateway_def)
  have b: "getPositions usd_gateway upper demo_int (Some (TicketStr ''1'')) None (Some ''XAU'')
      None = (Inr [], [])"
    using ticket_precheck [OF t, where symbol_name = None and gw = usd_gateway
        and py_int = demo_int and group_name = "Some ''XAU''" and order_type = None
        and unicode_upper = upper]
    by (simp add: usd_gateway_def)
  have c: "getPositions usd_gateway upper demo_int (Some (TicketStr ''1'')) (Some ''EURUSD'')
        (Some ''USD'') None
     = (Inr [\<lparr>row_ticket = 1, row_symbol = ''EURUSD'', row_type_code = 0\<rparr>], [By_ticket 1])"
    using ticket_precheck [OF t, where symbol_name = "Some ''EURUSD''" and gw = usd_gateway
        and py_int = demo_int and group_name = "Some ''USD''" and order_type = None
        and unicode_upper = upper]
    by (simp add: usd_gateway_def demo_int_def filter_order_type_def)
  have d: "getPositions usd_gateway upper demo_int (Some (TicketStr ''abc'')) (Some ''EURUSD'')
        (Some ''USD'') None = (Inr [], [])"
    using ticket_precheck [OF t', where symbol_name = "Some ''EURUSD''" and gw = usd_gateway
        and py_int = demo_int and group_name = "Some ''USD''" and order_type = None
        and unicode_upper = upper]
    by (simp add: demo_int_def)
  from a b c d show ?thesis by blast
qed

text \<open>Claim C6 as stated says that a group resolving to more than one instrument gives
  an empty result without a query by ticket. With the ticket 1 and the group USD, which
  resolves to two instruments, the gateway is queried by ticket and the position is
  returned.\<close>

theorem group_with_two_matches_queries:
  "getPositions usd_gateway upper demo_int (Some (TicketInt 1)) None (Some ''USD'') None
     = (Inr [\<lparr>row_ticket = 1, row_symbol = ''EURUSD'', row_type_code = 0\<rparr>], [By_ticket 1])
   \<and> length (get_symbols usd_gateway ''USD'') = 2"
  by code_simp

end
